theory Spec2Isabelle
  imports Complex_Main "HOL-Library.Extended_Nat"
begin

section \<open>JavaScript values the scripts rely on\<close>

text \<open>
  The scripts are JavaScript. Strings are modelled as \<^typ>\<open>string\<close>; \<open>null\<close> and
  \<open>undefined\<close> as \<^term>\<open>None\<close>. A value used as a condition is tested for truthiness:
  \<open>null\<close> and the empty string are falsy, every other string is truthy. The time stamps
  that the objects of the scripts carry (\<open>startTime\<close>, \<open>timestamp\<close>) are left out: they are
  written and never read. Logging is left out as well.
\<close>

definition truthy :: "string option \<Rightarrow> bool" where
  "truthy v = (case v of None \<Rightarrow> False | Some s \<Rightarrow> s \<noteq> [])"

definition isSpace :: "char \<Rightarrow> bool" where
  "isSpace c = (c \<in> set [CHR '' '', CHR 0x09, CHR 0x0A, CHR 0x0B, CHR 0x0C, CHR 0x0D])"

text \<open>\<open>String.prototype.trim\<close>: white space removed at both ends.\<close>

definition trim :: "string \<Rightarrow> string" where
  "trim s = rev (dropWhile isSpace (rev (dropWhile isSpace s)))"

text \<open>\<open>String.prototype.substring(0, n)\<close>.\<close>

definition substring0 :: "nat \<Rightarrow> string \<Rightarrow> string" where
  "substring0 n s = take n s"

text \<open>\<open>String.prototype.includes\<close>: the pattern occurs somewhere in the text.\<close>

fun includesStr :: "string \<Rightarrow> string \<Rightarrow> bool" where
  "includesStr [] p = (p = [])"
| "includesStr (c # cs) p = (take (length p) (c # cs) = p \<or> includesStr cs p)"

definition isDigit :: "char \<Rightarrow> bool" where
  "isDigit c = (48 \<le> (of_char c :: nat) \<and> (of_char c :: nat) \<le> 57)"

definition digitVal :: "char \<Rightarrow> nat" where
  "digitVal c = (of_char c :: nat) - 48"

text \<open>
  A JavaScript number is an IEEE 754 double. \<open>parseInt\<close> reads the decimal value of a
  run of digits and rounds it to the nearest double, ties to even; from \<open>2 ^ 1024\<close> on the
  result is \<open>Infinity\<close>. Below \<open>2 ^ 53\<close> nothing is rounded. The numbers \<open>parseInt\<close>
  returns here are natural numbers or \<open>Infinity\<close>: \<^typ>\<open>enat\<close>.
\<close>

fun bitlen :: "nat \<Rightarrow> nat" where
  "bitlen n = (if n = 0 then 0 else Suc (bitlen (n div 2)))"

declare bitlen.simps [simp del]

definition toNumber :: "nat \<Rightarrow> enat" where
  "toNumber n =
     (if n < 2 ^ 53 then enat n
      else let e = bitlen n - 53;
               q = n div 2 ^ e;
               r = n mod 2 ^ e;
               h = 2 ^ (e - 1);
               q' = (if h < r \<or> (r = h \<and> odd q) then q + 1 else q);
               m = q' * 2 ^ e
           in if 2 ^ 1024 \<le> m then \<infinity> else enat m)"

definition decimal :: "string \<Rightarrow> nat" where
  "decimal ds = foldl (\<lambda>a c. 10 * a + digitVal c) 0 ds"

text \<open>
  \<open>parseInt\<close> is only applied to the capture groups of the version pattern, which are
  non-empty runs of the digits 0 to 9; it reads the leading digits.
\<close>

definition parseInt :: "string \<Rightarrow> enat" where
  "parseInt s = toNumber (decimal (takeWhile isDigit s))"

section \<open>Version classification (safe-update.js)\<close>

text \<open>
  The pattern \<open>/^v?(\d+)\.(\d+)\.(\d+)/\<close>, anchored at the start only. \<open>v?\<close> and
  \<open>\d+\<close> are greedy; since a digit is neither \<open>v\<close> nor a dot, backtracking never finds
  a match the greedy reading misses, and the groups are the longest runs of digits.
\<close>

definition optV :: "string \<Rightarrow> string" where
  "optV s = (case s of [] \<Rightarrow> [] | c # r \<Rightarrow> if c = CHR ''v'' then r else c # r)"

definition digits1 :: "string \<Rightarrow> (string \<times> string) option" where
  "digits1 s =
     (let d = takeWhile isDigit s
      in if d = [] then None else Some (d, dropWhile isDigit s))"

definition dot :: "string \<Rightarrow> string option" where
  "dot s = (case s of [] \<Rightarrow> None | c # r \<Rightarrow> if c = CHR ''.'' then Some r else None)"

definition semverMatch :: "string \<Rightarrow> (string \<times> string \<times> string) option" where
  "semverMatch version =
     (case digits1 (optV version) of
        None \<Rightarrow> None
      | Some (a, r1) \<Rightarrow>
          (case dot r1 of
             None \<Rightarrow> None
           | Some r2 \<Rightarrow>
               (case digits1 r2 of
                  None \<Rightarrow> None
                | Some (b, r3) \<Rightarrow>
                    (case dot r3 of
                       None \<Rightarrow> None
                     | Some r4 \<Rightarrow>
                         (case digits1 r4 of
                            None \<Rightarrow> None
                          | Some (c, r5) \<Rightarrow> Some (a, b, c))))))"

text \<open>\<open>isSemanticVersion\<close>: the pattern's \<open>test\<close>.\<close>

definition isSemanticVersion :: "string \<Rightarrow> bool" where
  "isSemanticVersion version = (semverMatch version \<noteq> None)"

datatype error =
    Error string
  | TypeError string

fun message :: "error \<Rightarrow> string" where
  "message (Error m) = m"
| "message (TypeError m) = m"

record semver =
  major :: enat
  minor :: enat
  patch :: enat

definition parseSemanticVersion :: "string \<Rightarrow> error + semver" where
  "parseSemanticVersion version =
     (case semverMatch version of
        None \<Rightarrow> Inl (Error (''Invalid semantic version: '' @ version))
      | Some (a, b, c) \<Rightarrow>
          Inr \<lparr>major = parseInt a, minor = parseInt b, patch = parseInt c\<rparr>)"

text \<open>
  The body of \<open>determineUpdateType\<close> once the current version is known:
  \<open>currentVersion\<close> is what \<open>getCurrentVersion\<close> returned (\<open>null\<close> when the tag lookup
  failed). The \<open>try\<close> block is \<open>classifyTry\<close>; the \<open>catch\<close> turns every exception
  into \<open>'major'\<close>. Update types are the strings the source uses.
\<close>

definition classifyTry :: "string option \<Rightarrow> string \<Rightarrow> error + string" where
  "classifyTry currentVersion targetVersion =
     (case currentVersion of
        None \<Rightarrow> Inr ''major''
      | Some cv \<Rightarrow>
          if cv = [] \<or> \<not> isSemanticVersion cv \<or> \<not> isSemanticVersion targetVersion
          then Inr ''major''
          else
            (case parseSemanticVersion cv of
               Inl e \<Rightarrow> Inl e
             | Inr current \<Rightarrow>
                 (case parseSemanticVersion targetVersion of
                    Inl e \<Rightarrow> Inl e
                  | Inr target \<Rightarrow>
                      if major current < major target then Inr ''major''
                      else if minor current < minor target then Inr ''minor''
                      else if patch current < patch target then Inr ''patch''
                      else Inr ''patch'')))"

definition classify :: "string option \<Rightarrow> string \<Rightarrow> string" where
  "classify currentVersion targetVersion =
     (case classifyTry currentVersion targetVersion of
        Inl e \<Rightarrow> ''major''
      | Inr t \<Rightarrow> t)"

section \<open>Production quality gates (the second script of update-mirror-branches.js)\<close>

text \<open>
  Scores are JavaScript numbers; they are modelled as exact rationals. Values stored in a
  gate's \<open>checks\<close> object are dynamically typed.
\<close>

datatype jsval = Undefined | Null | Bool bool | Num rat | Str string

fun toBoolean :: "jsval \<Rightarrow> bool" where
  "toBoolean Undefined = False"
| "toBoolean Null = False"
| "toBoolean (Bool b) = b"
| "toBoolean (Num r) = (r \<noteq> 0)"
| "toBoolean (Str s) = (s \<noteq> [])"

record gate =
  name :: string
  weight :: rat
  critical :: bool

record gateResult =
  gname :: string
  score :: rat
  maxScore :: rat
  passed :: bool
  checks :: "(string \<times> jsval) list"
  issues :: "string list"

record evaluation =
  service :: string
  overallScore :: rat
  canDeploy :: bool
  gateResults :: "(string \<times> gateResult) list"
  criticalFailures :: "string list"
  warnings :: "string list"

record ProductionQualityGates =
  gates :: "gate list"
  minimumScore :: rat
  criticalGateThreshold :: rat

definition newProductionQualityGates :: ProductionQualityGates where
  "newProductionQualityGates =
     \<lparr>gates =
        [\<lparr>name = ''Security Gate'', weight = 25, critical = True\<rparr>,
         \<lparr>name = ''Stability Gate'', weight = 20, critical = True\<rparr>,
         \<lparr>name = ''Performance Gate'', weight = 15, critical = False\<rparr>,
         \<lparr>name = ''Contract Gate'', weight = 20, critical = True\<rparr>,
         \<lparr>name = ''Deployment Gate'', weight = 20, critical = True\<rparr>],
      minimumScore = 80,
      criticalGateThreshold = 90\<rparr>"

text \<open>\<open>gate.name.toLowerCase().replace(' gate', '')\<close>: the first occurrence is replaced.\<close>

definition lowerChar :: "char \<Rightarrow> char" where
  "lowerChar c =
     (case map_of (zip ''ABCDEFGHIJKLMNOPQRSTUVWXYZ'' ''abcdefghijklmnopqrstuvwxyz'') c of
        None \<Rightarrow> c
      | Some l \<Rightarrow> l)"

definition toLowerCase :: "string \<Rightarrow> string" where
  "toLowerCase s = map lowerChar s"

fun replaceFirst :: "string \<Rightarrow> string \<Rightarrow> string \<Rightarrow> string" where
  "replaceFirst p r [] = (if p = [] then r else [])"
| "replaceFirst p r (c # cs) =
     (if take (length p) (c # cs) = p then r @ drop (length p) (c # cs)
      else c # replaceFirst p r cs)"

definition gateKey :: "gate \<Rightarrow> string" where
  "gateKey g = replaceFirst '' gate'' [] (toLowerCase (name g))"

subsection \<open>What the probes of a service directory answer\<close>

text \<open>
  The gates read the file system and run tools. Their answers for one service directory
  are collected in \<open>serviceFacts\<close>: \<open>hasFile n\<close> is
  \<open>fs.existsSync(path.join(servicePath, n))\<close>; \<open>readGitignore\<close> is what
  \<open>fs.readFileSync\<close> gives for \<open>.gitignore\<close> (it raises when the file cannot be read);
  \<open>noSecretsScan\<close> is the result of \<open>checkForHardcodedSecrets\<close>, a scan of at most
  twenty source files that catches its own exceptions; \<open>auditTotal\<close> is the total that
  \<open>npm audit --json\<close> reports (\<open>None\<close>: no output, or output that does not parse);
  \<open>latestTag\<close> is the output of \<open>git tag -l --sort=-version:refname | head -1\<close>;
  \<open>contract\<close> is the result of \<open>ContractValidator.validateServiceContract\<close>, which
  catches its own exceptions; \<open>npmCi\<close> tells whether \<open>npm ci\<close> succeeds.
\<close>

record contractResult =
  hasContract :: bool
  isValid :: bool
  compatibilityScore :: rat
  breakingChanges :: "string list"
  version :: "string option"

record serviceFacts =
  hasFile :: "string \<Rightarrow> bool"
  readGitignore :: "error + string"
  noSecretsScan :: bool
  auditTotal :: "nat option"
  latestTag :: "string option"
  contract :: contractResult
  npmCi :: bool

definition checkSecureGitignore :: "serviceFacts \<Rightarrow> error + bool" where
  "checkSecureGitignore f =
     (if \<not> hasFile f ''.gitignore'' then Inr False
      else case readGitignore f of
             Inl e \<Rightarrow> Inl e
           | Inr content \<Rightarrow>
               Inr (list_all (includesStr content)
                      [''.env'', ''*.key'', ''*.pem'', ''node_modules'']))"

definition checkForHardcodedSecrets :: "serviceFacts \<Rightarrow> bool" where
  "checkForHardcodedSecrets f = noSecretsScan f"

definition checkVulnerabilities :: "serviceFacts \<Rightarrow> nat" where
  "checkVulnerabilities f = (case auditTotal f of None \<Rightarrow> 0 | Some n \<Rightarrow> n)"

text \<open>The pattern \<open>/^v?\d+\.\d+\.\d+$/\<close> of \<open>checkStableTag\<close>.\<close>

definition stableTagMatch :: "string \<Rightarrow> bool" where
  "stableTagMatch s =
     (case digits1 (optV s) of
        None \<Rightarrow> False
      | Some (a, r1) \<Rightarrow>
          (case dot r1 of
             None \<Rightarrow> False
           | Some r2 \<Rightarrow>
               (case digits1 r2 of
                  None \<Rightarrow> False
                | Some (b, r3) \<Rightarrow>
                    (case dot r3 of
                       None \<Rightarrow> False
                     | Some r4 \<Rightarrow>
                         (case digits1 r4 of
                            None \<Rightarrow> False
                          | Some (c, r5) \<Rightarrow> r5 = [])))))"

text \<open>\<open>tags && /.../.test(tags.trim())\<close>: \<open>null\<close> or the empty string when there is no tag.\<close>

definition checkStableTag :: "serviceFacts \<Rightarrow> jsval" where
  "checkStableTag f =
     (case latestTag f of
        None \<Rightarrow> Null
      | Some tags \<Rightarrow> if tags = [] then Str [] else Bool (stableTagMatch (trim tags)))"

definition checkTestExistence :: "serviceFacts \<Rightarrow> bool" where
  "checkTestExistence f = (hasFile f ''tests'' \<or> hasFile f ''__tests__'')"

text \<open>The checks the source stubs with a constant.\<close>

definition getTestCoverage :: "serviceFacts \<Rightarrow> rat" where "getTestCoverage f = 80"
definition checkBuildStability :: "serviceFacts \<Rightarrow> bool" where "checkBuildStability f = True"
definition checkErrorHandling :: "serviceFacts \<Rightarrow> bool" where "checkErrorHandling f = True"
definition checkRollbackCapability :: "serviceFacts \<Rightarrow> bool" where "checkRollbackCapability f = True"
definition checkHealthEndpoint :: "serviceFacts \<Rightarrow> bool" where "checkHealthEndpoint f = True"
definition checkBundleSize :: "serviceFacts \<Rightarrow> rat" where "checkBundleSize f = 1000000"
definition measureBuildTime :: "serviceFacts \<Rightarrow> rat" where "measureBuildTime f = 120"
definition countDependencies :: "serviceFacts \<Rightarrow> rat" where "countDependencies f = 25"
definition checkLazyLoading :: "serviceFacts \<Rightarrow> bool" where "checkLazyLoading f = True"
definition checkBuildScript :: "serviceFacts \<Rightarrow> bool" where "checkBuildScript f = True"
definition checkStartScript :: "serviceFacts \<Rightarrow> bool" where "checkStartScript f = True"
definition checkDeploymentConfig :: "serviceFacts \<Rightarrow> bool" where "checkDeploymentConfig f = True"
definition checkEnvironmentConfig :: "serviceFacts \<Rightarrow> bool" where "checkEnvironmentConfig f = True"
definition checkHealthCheckScript :: "serviceFacts \<Rightarrow> bool" where "checkHealthCheckScript f = True"
definition checkProductionReadiness :: "serviceFacts \<Rightarrow> bool" where "checkProductionReadiness f = True"
definition checkHttpsEnforcement :: "serviceFacts \<Rightarrow> bool" where "checkHttpsEnforcement f = True"
definition checkAuthImplementation :: "serviceFacts \<Rightarrow> bool" where "checkAuthImplementation f = True"
definition getLatestStableTag :: "serviceFacts \<Rightarrow> string" where "getLatestStableTag f = ''v1.0.0''"

definition collectSecurityIssues :: "(string \<times> jsval) list \<Rightarrow> string list" where
  "collectSecurityIssues cs = []"
definition collectStabilityIssues :: "(string \<times> jsval) list \<Rightarrow> string list" where
  "collectStabilityIssues cs = []"
definition collectContractIssues :: "(string \<times> jsval) list \<Rightarrow> contractResult \<Rightarrow> string list" where
  "collectContractIssues cs r = []"
definition collectDeploymentIssues :: "(string \<times> jsval) list \<Rightarrow> string list" where
  "collectDeploymentIssues cs = []"

text \<open>\<open>[...].filter(Boolean).length\<close>.\<close>

definition countTrue :: "bool list \<Rightarrow> nat" where
  "countTrue bs = length (filter (\<lambda>b. b) bs)"

subsection \<open>The five gates\<close>

definition evaluateSecurityGate :: "ProductionQualityGates \<Rightarrow> serviceFacts \<Rightarrow> gateResult" where
  "evaluateSecurityGate this f =
     (let gate0 = \<lparr>gname = ''Security Gate'', score = 0, maxScore = 100, passed = False,
                    checks = [], issues = []\<rparr>;
          hasSecurityPolicy = hasFile f ''SECURITY.md''
      in case checkSecureGitignore f of
           Inl e \<Rightarrow>
             gate0\<lparr>checks := [(''hasSecurityPolicy'', Bool hasSecurityPolicy)],
                   issues := [''Security evaluation failed: '' @ message e]\<rparr>
         | Inr secureGitignore \<Rightarrow>
             (let hasEnvExample = hasFile f ''.env.example'';
                  noHardcodedSecrets = checkForHardcodedSecrets f;
                  vulnerabilityCount = checkVulnerabilities f;
                  hasSecurityAudit = (vulnerabilityCount = 0);
                  httpsEnforced = checkHttpsEnforcement f;
                  hasAuth = checkAuthImplementation f;
                  cs = [(''hasSecurityPolicy'', Bool hasSecurityPolicy),
                        (''secureGitignore'', Bool secureGitignore),
                        (''hasEnvExample'', Bool hasEnvExample),
                        (''noHardcodedSecrets'', Bool noHardcodedSecrets),
                        (''vulnerabilityCount'', Num (of_nat vulnerabilityCount)),
                        (''hasSecurityAudit'', Bool hasSecurityAudit),
                        (''httpsEnforced'', Bool httpsEnforced),
                        (''hasAuth'', Bool hasAuth)];
                  baseScore =
                    of_nat (countTrue [hasSecurityPolicy, secureGitignore, hasEnvExample,
                              noHardcodedSecrets, hasSecurityAudit, httpsEnforced, hasAuth])
                      * (100 / 7);
                  vulnPenalty = min (of_nat vulnerabilityCount * 5) 30;
                  sc = max 0 (baseScore - vulnPenalty);
                  ok = (criticalGateThreshold this \<le> sc)
              in gate0\<lparr>checks := cs, score := sc, passed := ok,
                       issues := (if \<not> ok then collectSecurityIssues cs else [])\<rparr>))"

text \<open>
  Nothing the stability, performance and deployment gates call can raise, so their
  \<open>catch\<close> blocks have no branch here; the contract validator catches its own exceptions.
\<close>

definition evaluateStabilityGate :: "ProductionQualityGates \<Rightarrow> serviceFacts \<Rightarrow> gateResult" where
  "evaluateStabilityGate this f =
     (let hasStableTag = checkStableTag f;
          tagVersion = (if toBoolean hasStableTag then Str (getLatestStableTag f) else Null);
          hasTests = checkTestExistence f;
          testCoverage = getTestCoverage f;
          buildPasses = checkBuildStability f;
          hasErrorHandling = checkErrorHandling f;
          canRollback = checkRollbackCapability f;
          hasHealthEndpoint = checkHealthEndpoint f;
          cs = [(''hasStableTag'', hasStableTag), (''tagVersion'', tagVersion),
                (''hasTests'', Bool hasTests), (''testCoverage'', Num testCoverage),
                (''buildPasses'', Bool buildPasses),
                (''hasErrorHandling'', Bool hasErrorHandling),
                (''canRollback'', Bool canRollback),
                (''hasHealthEndpoint'', Bool hasHealthEndpoint)];
          sc = (if toBoolean hasStableTag then 20 else 0)
             + (if hasTests then 15 else 0)
             + min testCoverage 20
             + (if buildPasses then 15 else 0)
             + (if hasErrorHandling then 10 else 0)
             + (if canRollback then 10 else 0)
             + (if hasHealthEndpoint then 10 else 0);
          ok = (criticalGateThreshold this \<le> sc)
      in \<lparr>gname = ''Stability Gate'', score = sc, maxScore = 100, passed = ok,
          checks = cs, issues = (if \<not> ok then collectStabilityIssues cs else [])\<rparr>)"

definition evaluatePerformanceGate :: "ProductionQualityGates \<Rightarrow> serviceFacts \<Rightarrow> gateResult" where
  "evaluatePerformanceGate this f =
     (let bundleSize = checkBundleSize f;
          buildTime = measureBuildTime f;
          dependencyCount = countDependencies f;
          hasLazyLoading = checkLazyLoading f;
          cs = [(''bundleSize'', Num bundleSize), (''buildTime'', Num buildTime),
                (''dependencyCount'', Num dependencyCount),
                (''hasLazyLoading'', Bool hasLazyLoading)];
          s1 = (if 5000000 < bundleSize then 85 - 15 else 85);
          i1 = (if 5000000 < bundleSize then [''Large bundle size detected''] else []);
          s2 = (if 300 < buildTime then s1 - 10 else s1);
          i2 = (if 300 < buildTime then i1 @ [''Build time exceeds 5 minutes''] else i1);
          s3 = (if 50 < dependencyCount then s2 - 5 else s2);
          i3 = (if 50 < dependencyCount then i2 @ [''High dependency count''] else i2);
          sc = max 0 s3
      in \<lparr>gname = ''Performance Gate'', score = sc, maxScore = 100, passed = (70 \<le> sc),
          checks = cs, issues = i3\<rparr>)"

definition evaluateContractGate :: "ProductionQualityGates \<Rightarrow> serviceFacts \<Rightarrow> gateResult" where
  "evaluateContractGate this f =
     (let contractResult = contract f;
          hasVersion = (version contractResult \<noteq> Some ''unknown'');
          nBreaking = length (breakingChanges contractResult);
          cs = [(''hasContract'', Bool (hasContract contractResult)),
                (''contractValid'', Bool (isValid contractResult)),
                (''compatibilityScore'', Num (compatibilityScore contractResult)),
                (''breakingChanges'', Num (of_nat nBreaking)),
                (''hasVersion'', Bool hasVersion)];
          sc = (if hasContract contractResult then 30 else 0)
             + (if isValid contractResult then 25 else 0)
             + min (compatibilityScore contractResult) 25
             + (if hasVersion then 10 else 0)
             + (if nBreaking = 0 then 10 else 0);
          ok = (criticalGateThreshold this \<le> sc)
      in \<lparr>gname = ''Contract Gate'', score = sc, maxScore = 100, passed = ok,
          checks = cs,
          issues = (if \<not> ok then collectContractIssues cs contractResult else [])\<rparr>)"

definition evaluateDeploymentGate :: "ProductionQualityGates \<Rightarrow> serviceFacts \<Rightarrow> gateResult" where
  "evaluateDeploymentGate this f =
     (let hasPackageJson = hasFile f ''package.json'';
          hasBuildScript = checkBuildScript f;
          hasStartScript = checkStartScript f;
          hasDeploymentConfig = checkDeploymentConfig f;
          hasDockerfile = hasFile f ''Dockerfile'';
          hasEnvConfig = checkEnvironmentConfig f;
          hasHealthCheck = checkHealthCheckScript f;
          prodReady = checkProductionReadiness f;
          cs = [(''hasPackageJson'', Bool hasPackageJson),
                (''hasBuildScript'', Bool hasBuildScript),
                (''hasStartScript'', Bool hasStartScript),
                (''hasDeploymentConfig'', Bool hasDeploymentConfig),
                (''hasDockerfile'', Bool hasDockerfile),
                (''hasEnvConfig'', Bool hasEnvConfig),
                (''hasHealthCheck'', Bool hasHealthCheck),
                (''prodReady'', Bool prodReady)];
          flags = [hasPackageJson, hasBuildScript, hasStartScript, hasDeploymentConfig,
                   hasEnvConfig, hasHealthCheck, prodReady];
          sc = of_nat (countTrue flags) / of_nat (length flags) * 100;
          ok = (criticalGateThreshold this \<le> sc)
      in \<lparr>gname = ''Deployment Gate'', score = sc, maxScore = 100, passed = ok,
          checks = cs, issues = (if \<not> ok then collectDeploymentIssues cs else [])\<rparr>)"

subsection \<open>Aggregation\<close>

text \<open>
  \<open>calculateOverallScore\<close>: the loop over \<open>this.gates\<close> carries \<open>totalScore\<close> and
  \<open>totalWeight\<close>; a gate with no result is skipped.
\<close>

fun sumGates :: "(string \<times> gateResult) list \<Rightarrow> gate list \<Rightarrow> rat \<times> rat \<Rightarrow> rat \<times> rat" where
  "sumGates rs [] acc = acc"
| "sumGates rs (g # gs) (totalScore, totalWeight) =
     (case map_of rs (gateKey g) of
        None \<Rightarrow> sumGates rs gs (totalScore, totalWeight)
      | Some result \<Rightarrow>
          sumGates rs gs (totalScore + (score result * weight g) / 100, totalWeight + weight g))"

definition calculateOverallScore ::
  "ProductionQualityGates \<Rightarrow> (string \<times> gateResult) list \<Rightarrow> rat" where
  "calculateOverallScore this rs =
     (case sumGates rs (gates this) (0, 0) of
        (totalScore, totalWeight) \<Rightarrow>
          if 0 < totalWeight then (totalScore / totalWeight) * 100 else 0)"

text \<open>The loop of \<open>canServiceDeploy\<close> over \<open>this.gates\<close>, with its early \<open>return false\<close>.\<close>

fun criticalGatesPass :: "(string \<times> gateResult) list \<Rightarrow> gate list \<Rightarrow> bool" where
  "criticalGatesPass rs [] = True"
| "criticalGatesPass rs (g # gs) =
     (if critical g
      then (case map_of rs (gateKey g) of
              None \<Rightarrow> False
            | Some result \<Rightarrow> if \<not> passed result then False else criticalGatesPass rs gs)
      else criticalGatesPass rs gs)"

definition canServiceDeploy :: "ProductionQualityGates \<Rightarrow> evaluation \<Rightarrow> bool" where
  "canServiceDeploy this ev =
     (if overallScore ev < minimumScore this then False
      else criticalGatesPass (gateResults ev) (gates this))"

text \<open>
  \<open>collectIssues\<close>: the entries of \<open>gateResults\<close> in insertion order; \<open>this.gates.find\<close>
  gives the first gate with that key.
\<close>

fun collectIssuesLoop ::
  "ProductionQualityGates \<Rightarrow> (string \<times> gateResult) list \<Rightarrow> evaluation \<Rightarrow> evaluation" where
  "collectIssuesLoop this [] ev = ev"
| "collectIssuesLoop this ((gateKey', gateResult) # rest) ev =
     (if issues gateResult \<noteq> []
      then (case find (\<lambda>g. gateKey g = gateKey') (gates this) of
              None \<Rightarrow>
                collectIssuesLoop this rest (ev\<lparr>warnings := warnings ev @ issues gateResult\<rparr>)
            | Some g \<Rightarrow>
                if critical g \<and> \<not> passed gateResult
                then collectIssuesLoop this rest
                       (ev\<lparr>criticalFailures := criticalFailures ev @ issues gateResult\<rparr>)
                else collectIssuesLoop this rest
                       (ev\<lparr>warnings := warnings ev @ issues gateResult\<rparr>))
      else collectIssuesLoop this rest ev)"

definition collectIssues :: "ProductionQualityGates \<Rightarrow> evaluation \<Rightarrow> evaluation" where
  "collectIssues this ev = collectIssuesLoop this (gateResults ev) ev"

subsection \<open>Evaluating one service\<close>

text \<open>
  \<open>evaluateServiceGates\<close> calls the five gate methods of the object in turn inside one
  \<open>try\<close>. The methods are taken as a parameter, each returning its gate or raising; the
  methods of the class itself are \<open>classMethods\<close>. Assigning
  \<open>evaluation.gateResults.k\<close> keeps the insertion order of the keys.
\<close>

record gateMethods =
  securityMethod :: "string \<Rightarrow> error + gateResult"
  stabilityMethod :: "string \<Rightarrow> error + gateResult"
  performanceMethod :: "string \<Rightarrow> error + gateResult"
  contractMethod :: "string \<Rightarrow> error + gateResult"
  deploymentMethod :: "string \<Rightarrow> error + gateResult"

definition setResult ::
  "string \<Rightarrow> gateResult \<Rightarrow> evaluation \<Rightarrow> evaluation" where
  "setResult k r ev =
     ev\<lparr>gateResults :=
          (if k \<in> fst ` set (gateResults ev)
           then map (\<lambda>(k', r'). if k' = k then (k', r) else (k', r')) (gateResults ev)
           else gateResults ev @ [(k, r)])\<rparr>"

definition failEvaluation :: "error \<Rightarrow> evaluation \<Rightarrow> evaluation" where
  "failEvaluation e ev =
     ev\<lparr>criticalFailures :=
          criticalFailures ev @ [''Quality gate evaluation failed: '' @ message e]\<rparr>"

definition evaluateServiceGates ::
  "ProductionQualityGates \<Rightarrow> gateMethods \<Rightarrow> string \<Rightarrow> evaluation" where
  "evaluateServiceGates this m servicePath =
     (let ev0 = \<lparr>service = servicePath, overallScore = 0, canDeploy = False,
                 gateResults = [], criticalFailures = [], warnings = []\<rparr>
      in case securityMethod m servicePath of
           Inl e \<Rightarrow> failEvaluation e ev0
         | Inr security \<Rightarrow>
      (let ev1 = setResult ''security'' security ev0
       in case stabilityMethod m servicePath of
            Inl e \<Rightarrow> failEvaluation e ev1
          | Inr stability \<Rightarrow>
      (let ev2 = setResult ''stability'' stability ev1
       in case performanceMethod m servicePath of
            Inl e \<Rightarrow> failEvaluation e ev2
          | Inr performance \<Rightarrow>
      (let ev3 = setResult ''performance'' performance ev2
       in case contractMethod m servicePath of
            Inl e \<Rightarrow> failEvaluation e ev3
          | Inr contract' \<Rightarrow>
      (let ev4 = setResult ''contract'' contract' ev3
       in case deploymentMethod m servicePath of
            Inl e \<Rightarrow> failEvaluation e ev4
          | Inr deployment \<Rightarrow>
      (let ev5 = setResult ''deployment'' deployment ev4;
           ev6 = ev5\<lparr>overallScore := calculateOverallScore this (gateResults ev5)\<rparr>;
           ev7 = ev6\<lparr>canDeploy := canServiceDeploy this ev6\<rparr>
       in collectIssues this ev7))))))"

definition classMethods ::
  "ProductionQualityGates \<Rightarrow> (string \<Rightarrow> serviceFacts) \<Rightarrow> gateMethods" where
  "classMethods this factsAt =
     \<lparr>securityMethod = (\<lambda>p. Inr (evaluateSecurityGate this (factsAt p))),
      stabilityMethod = (\<lambda>p. Inr (evaluateStabilityGate this (factsAt p))),
      performanceMethod = (\<lambda>p. Inr (evaluatePerformanceGate this (factsAt p))),
      contractMethod = (\<lambda>p. Inr (evaluateContractGate this (factsAt p))),
      deploymentMethod = (\<lambda>p. Inr (evaluateDeploymentGate this (factsAt p)))\<rparr>"

record qualityReport =
  totalServices :: nat
  deployableServices :: nat
  averageScore :: "rat option"
  reportResults :: "evaluation list"
  criticalIssues :: "string list"

text \<open>\<open>averageScore\<close> is \<open>NaN\<close> (here \<open>None\<close>) when there is no service.\<close>

definition generateQualityReport :: "evaluation list \<Rightarrow> qualityReport" where
  "generateQualityReport rs =
     \<lparr>totalServices = length rs,
      deployableServices = length (filter canDeploy rs),
      averageScore =
        (if rs = [] then None
         else Some (foldl (\<lambda>sum r. sum + overallScore r) 0 rs / of_nat (length rs))),
      reportResults = rs,
      criticalIssues =
        concat (map (\<lambda>r. map (\<lambda>issue. service r @ '': '' @ issue) (criticalFailures r)) rs)\<rparr>"

text \<open>
  \<open>validateDeploymentReadiness\<close>: one service when a path is given, else every submodule
  path (\<open>allServices\<close>, what \<open>getAllServices\<close> returns).
\<close>

definition validateDeploymentReadiness ::
  "ProductionQualityGates \<Rightarrow> (string \<Rightarrow> serviceFacts) \<Rightarrow> string list \<Rightarrow> string option
     \<Rightarrow> qualityReport" where
  "validateDeploymentReadiness this factsAt allServices servicePath =
     (let services =
            (case servicePath of
               None \<Rightarrow> allServices
             | Some p \<Rightarrow> if p = [] then allServices else [p])
      in generateQualityReport
           (map (evaluateServiceGates this (classMethods this factsAt)) services))"

section \<open>Safe submodule update (safe-update.js)\<close>

record strategy =
  riskLevel :: string
  requiresApproval :: bool
  requiresCompatibilityTest :: bool

text \<open>
  \<open>this.updateStrategies\<close>, an object with three keys; any other key gives
  \<open>undefined\<close>. A missing \<open>requiresCompatibilityTest\<close> is falsy.
\<close>

definition updateStrategies :: "string \<Rightarrow> strategy option" where
  "updateStrategies t =
     (if t = ''patch''
      then Some \<lparr>riskLevel = ''low'', requiresApproval = False,
                   requiresCompatibilityTest = False\<rparr>
      else if t = ''minor''
      then Some \<lparr>riskLevel = ''medium'', requiresApproval = True,
                   requiresCompatibilityTest = False\<rparr>
      else if t = ''major''
      then Some \<lparr>riskLevel = ''high'', requiresApproval = True,
                   requiresCompatibilityTest = True\<rparr>
      else None)"

record rollbackPoint =
  submoduleCommit :: "string option"
  parentCommit :: string
  branch :: string

record updateContext =
  submodule :: string
  targetVersion :: string
  currentCommit :: "string option"
  targetCommit :: "string option"
  updateType :: "string option"
  qualityGates :: "qualityReport option"
  contracts :: "contractResult option"
  rollbackPoint :: "rollbackPoint option"
  approved :: "bool option"

subsection \<open>The repositories and the shell\<close>

text \<open>
  A submodule's repository: the commit checked out, its tags, the commits it knows, and
  what the read-only probes print. \<open>cleanProbe\<close> is the standard output of
  \<open>git diff --quiet && git diff --cached --quiet\<close> and \<open>tagProbe t\<close> that of
  \<open>git tag -l "t" | grep -q "^t$"\<close>; \<open>describeAt c\<close> is the output of
  \<open>git describe --tags --abbrev=0\<close> when \<open>c\<close> is checked out. \<open>None\<close> stands for a
  non-zero exit status, for which \<open>execQuiet\<close> returns \<open>null\<close>. What a probe prints is an
  input of the model: the source tests it for truthiness and nothing else. \<open>fetchResult\<close>
  gives the tags and commits after \<open>git fetch --tags\<close>, or \<open>None\<close> when the fetch fails.
\<close>

record subrepo =
  headCommit :: string
  tags :: "(string \<times> string) list"
  objects :: "string list"
  cleanProbe :: "string option"
  tagProbe :: "string \<Rightarrow> string option"
  describeAt :: "string \<Rightarrow> string option"
  fetchResult :: "((string \<times> string) list \<times> string list) option"

text \<open>
  The system: the file system (\<open>existsSync\<close>), the submodule repositories by path, the
  parent repository (its commits, \<open>HEAD\<close> first, its branch, and the identifiers its next
  commits will get: \<open>git commit\<close> fails when there is none), the facts the quality gates
  probe for a service path with a given commit checked out, and the updater's
  \<open>rollbackStack\<close>, an array whose last element is the top.
\<close>

record system =
  existsSync :: "string \<Rightarrow> bool"
  repos :: "string \<Rightarrow> subrepo option"
  parentLog :: "string list"
  parentBranch :: "string option"
  commitSupply :: "string list"
  facts :: "string \<Rightarrow> string option \<Rightarrow> serviceFacts"
  submodulePaths :: "string list"
  rollbackStack :: "rollbackPoint list"

definition factsAt :: "system \<Rightarrow> string \<Rightarrow> serviceFacts" where
  "factsAt s p = facts s p (map_option headCommit (repos s p))"

definition newline :: string where
  "newline = [CHR 0x0A]"

text \<open>\<open>execQuiet\<close>: the standard output, or \<open>null\<close> when the command fails.\<close>

definition gitDiffQuiet :: "system \<Rightarrow> string \<Rightarrow> string option" where
  "gitDiffQuiet s p = (case repos s p of None \<Rightarrow> None | Some r \<Rightarrow> cleanProbe r)"

definition gitTagProbe :: "system \<Rightarrow> string \<Rightarrow> string \<Rightarrow> string option" where
  "gitTagProbe s p t = (case repos s p of None \<Rightarrow> None | Some r \<Rightarrow> tagProbe r t)"

definition gitRevParseHead :: "system \<Rightarrow> string \<Rightarrow> string option" where
  "gitRevParseHead s p =
     (case repos s p of None \<Rightarrow> None | Some r \<Rightarrow> Some (headCommit r @ newline))"

definition resolveRef :: "subrepo \<Rightarrow> string \<Rightarrow> string option" where
  "resolveRef r x =
     (case map_of (tags r) x of
        Some c \<Rightarrow> Some c
      | None \<Rightarrow> if x \<in> set (objects r) then Some x else None)"

definition gitRevParse :: "system \<Rightarrow> string \<Rightarrow> string \<Rightarrow> string option" where
  "gitRevParse s p x =
     (case repos s p of
        None \<Rightarrow> None
      | Some r \<Rightarrow> map_option (\<lambda>c. c @ newline) (resolveRef r x))"

definition gitDescribe :: "system \<Rightarrow> string \<Rightarrow> string option" where
  "gitDescribe s p =
     (case repos s p of None \<Rightarrow> None | Some r \<Rightarrow> describeAt r (headCommit r))"

definition gitParentHead :: "system \<Rightarrow> string option" where
  "gitParentHead s = (case parentLog s of [] \<Rightarrow> None | c # cs \<Rightarrow> Some (c @ newline))"

definition gitBranchShowCurrent :: "system \<Rightarrow> string option" where
  "gitBranchShowCurrent s = map_option (\<lambda>b. b @ newline) (parentBranch s)"

text \<open>
  \<open>execCommand\<close>: raises \<open>Error('Command failed: ...')\<close> when the command fails (the
  tool's own message, which the source appends, is left out).
\<close>

definition commandFailed :: "string \<Rightarrow> error" where
  "commandFailed cmd = Error (''Command failed: '' @ cmd)"

definition gitFetchTags :: "system \<Rightarrow> string \<Rightarrow> error + system" where
  "gitFetchTags s p =
     (let cmd = ''cd '' @ p @ '' && git fetch --tags''
      in case repos s p of
           None \<Rightarrow> Inl (commandFailed cmd)
         | Some r \<Rightarrow>
             (case fetchResult r of
                None \<Rightarrow> Inl (commandFailed cmd)
              | Some (ts, os) \<Rightarrow>
                  Inr (s\<lparr>repos := (repos s)(p := Some (r\<lparr>tags := ts, objects := os\<rparr>))\<rparr>)))"

definition gitCheckout :: "system \<Rightarrow> string \<Rightarrow> string \<Rightarrow> error + system" where
  "gitCheckout s p x =
     (let cmd = ''cd '' @ p @ '' && git checkout '' @ x
      in case repos s p of
           None \<Rightarrow> Inl (commandFailed cmd)
         | Some r \<Rightarrow>
             (case resolveRef r x of
                None \<Rightarrow> Inl (commandFailed cmd)
              | Some c \<Rightarrow>
                  Inr (s\<lparr>repos := (repos s)(p := Some (r\<lparr>headCommit := c\<rparr>))\<rparr>)))"

definition gitAdd :: "system \<Rightarrow> string \<Rightarrow> error + system" where
  "gitAdd s p = (if existsSync s p then Inr s else Inl (commandFailed (''git add '' @ p)))"

text \<open>The log holds commit identifiers; the text of the commit message is not kept.\<close>

definition gitCommit :: "system \<Rightarrow> error + system" where
  "gitCommit s =
     (case commitSupply s of
        [] \<Rightarrow> Inl (commandFailed ''git commit'')
      | c # cs \<Rightarrow> Inr (s\<lparr>parentLog := c # parentLog s, commitSupply := cs\<rparr>))"

definition gitResetHard1 :: "system \<Rightarrow> error + system" where
  "gitResetHard1 s =
     (case parentLog s of
        c # c' # cs \<Rightarrow> Inr (s\<lparr>parentLog := c' # cs\<rparr>)
      | _ \<Rightarrow> Inl (commandFailed ''git reset --hard HEAD~1''))"

definition nullTrim :: error where
  "nullTrim = TypeError ''Cannot read properties of null (reading trim)''"

definition nullSubstring :: error where
  "nullSubstring = TypeError ''Cannot read properties of null (reading substring)''"

subsection \<open>The steps of one update\<close>

definition getCurrentVersion :: "system \<Rightarrow> string \<Rightarrow> string option" where
  "getCurrentVersion s submodulePath =
     (case gitDescribe s submodulePath of None \<Rightarrow> None | Some out \<Rightarrow> Some (trim out))"

definition determineUpdateType :: "system \<Rightarrow> updateContext \<Rightarrow> string" where
  "determineUpdateType s ctx =
     classify (getCurrentVersion s (submodule ctx)) (targetVersion ctx)"

text \<open>
  \<open>preUpdateValidation\<close> only reads the system. It returns the context as it stands when
  it returns or raises.
\<close>

definition preUpdateValidation :: "system \<Rightarrow> updateContext \<Rightarrow> (error + unit) \<times> updateContext" where
  "preUpdateValidation s ctx =
     (let sub = submodule ctx; tv = targetVersion ctx
      in if \<not> existsSync s sub
         then (Inl (Error (''Submodule '' @ sub @ '' does not exist'')), ctx)
         else if \<not> truthy (gitDiffQuiet s sub)
         then (Inl (Error (''Submodule '' @ sub @ '' has uncommitted changes'')), ctx)
         else
           (case gitRevParseHead s sub of
              None \<Rightarrow> (Inl nullTrim, ctx)
            | Some out \<Rightarrow>
                (let ctx1 = ctx\<lparr>currentCommit := Some (trim out)\<rparr>
                 in if \<not> truthy (gitTagProbe s sub tv)
                    then (Inl (Error (''Target version '' @ tv @ '' does not exist in '' @ sub)),
                          ctx1)
                    else
                      (case gitRevParse s sub tv of
                         None \<Rightarrow> (Inl nullTrim, ctx1)
                       | Some out2 \<Rightarrow>
                           (let ctx2 = ctx1\<lparr>targetCommit := Some (trim out2)\<rparr>;
                                ut = determineUpdateType s ctx2;
                                ctx3 = ctx2\<lparr>updateType := Some ut\<rparr>
                            in case updateStrategies ut of
                                 None \<Rightarrow>
                                   (Inl (TypeError
                                      ''Cannot read properties of undefined (reading requiresApproval)''),
                                    ctx3)
                               | Some strategy \<Rightarrow>
                                   if requiresApproval strategy \<and> approved ctx3 \<noteq> Some True
                                   then (Inl (Error (ut @ '' update requires approval'')), ctx3)
                                   else (Inr (), ctx3))))))"

text \<open>
  \<open>createRollbackPoint\<close>: the point is stored in the context and pushed before the log
  line that reads \<open>submoduleCommit.substring\<close>.
\<close>

definition createRollbackPoint ::
  "system \<Rightarrow> updateContext \<Rightarrow> (error + unit) \<times> updateContext \<times> system" where
  "createRollbackPoint s ctx =
     (case gitParentHead s of
        None \<Rightarrow> (Inl nullTrim, ctx, s)
      | Some ph \<Rightarrow>
          (case gitBranchShowCurrent s of
             None \<Rightarrow> (Inl nullTrim, ctx, s)
           | Some br \<Rightarrow>
               (let rp = \<lparr>submoduleCommit = currentCommit ctx, parentCommit = trim ph,
                          branch = trim br\<rparr>;
                    ctx1 = ctx\<lparr>rollbackPoint := Some rp\<rparr>;
                    s1 = s\<lparr>rollbackStack := rollbackStack s @ [rp]\<rparr>
                in case submoduleCommit rp of
                     None \<Rightarrow> (Inl nullSubstring, ctx1, s1)
                   | Some c \<Rightarrow> (Inr (), ctx1, s1))))"

definition performUpdate ::
  "system \<Rightarrow> updateContext \<Rightarrow> (error + unit) \<times> updateContext \<times> system" where
  "performUpdate s ctx =
     (let sub = submodule ctx; tv = targetVersion ctx
      in case gitFetchTags s sub of
           Inl e \<Rightarrow> (Inl e, ctx, s)
         | Inr s1 \<Rightarrow>
             (case gitCheckout s1 sub tv of
                Inl e \<Rightarrow> (Inl e, ctx, s1)
              | Inr s2 \<Rightarrow>
                  (case gitRevParseHead s2 sub of
                     None \<Rightarrow> (Inl nullTrim, ctx, s2)
                   | Some out \<Rightarrow>
                       if Some (trim out) \<noteq> targetCommit ctx
                       then (Inl (Error (''Checkout verification failed: expected ''
                                   @ (case targetCommit ctx of None \<Rightarrow> ''null'' | Some c \<Rightarrow> c)
                                   @ '', got '' @ trim out)), ctx, s2)
                       else (Inr (), ctx, s2))))"

fun joinWith :: "string \<Rightarrow> string list \<Rightarrow> string" where
  "joinWith sep [] = []"
| "joinWith sep [x] = x"
| "joinWith sep (x # y # ys) = x @ sep @ joinWith sep (y # ys)"

definition buildVerification :: "system \<Rightarrow> updateContext \<Rightarrow> (error + unit) \<times> updateContext" where
  "buildVerification s ctx =
     (let f = factsAt s (submodule ctx)
      in if hasFile f ''package.json''
         then (if npmCi f then (Inr (), ctx)
               else (Inl (Error (''Build verification failed: ''
                       @ message (commandFailed (''cd '' @ submodule ctx @ '' && npm ci --silent'')))),
                     ctx))
         else (Inr (), ctx))"

text \<open>
  \<open>postUpdateValidation\<close>: the quality gates of a fresh \<open>ProductionQualityGates\<close>, the
  contract validation when the strategy asks for it, and the build.
\<close>

definition postUpdateValidation :: "system \<Rightarrow> updateContext \<Rightarrow> (error + unit) \<times> updateContext" where
  "postUpdateValidation s ctx =
     (let sub = submodule ctx;
          gateResults' = validateDeploymentReadiness newProductionQualityGates (factsAt s)
                          (submodulePaths s) (Some sub);
          ctx1 = ctx\<lparr>qualityGates := Some gateResults'\<rparr>
      in if criticalIssues gateResults' \<noteq> []
         then (Inl (Error (''Quality gate failures: ''
                      @ joinWith '', '' (criticalIssues gateResults'))), ctx1)
         else
           (case (case updateType ctx1 of None \<Rightarrow> None | Some ut \<Rightarrow> updateStrategies ut) of
              None \<Rightarrow>
                (Inl (TypeError
                   ''Cannot read properties of undefined (reading requiresCompatibilityTest)''),
                 ctx1)
            | Some strategy \<Rightarrow>
                if requiresCompatibilityTest strategy
                then (let contractResults = contract (factsAt s sub);
                          ctx2 = ctx1\<lparr>contracts := Some contractResults\<rparr>
                      in if breakingChanges contractResults \<noteq> []
                         then (Inl (Error (''Breaking changes detected: ''
                                      @ joinWith '', '' (breakingChanges contractResults))), ctx2)
                         else buildVerification s ctx2)
                else buildVerification s ctx1))"

text \<open>
  \<open>updateParentRepository\<close>: \<open>git add\<close>, then the commit message, which reads
  \<open>currentCommit.substring\<close> and \<open>targetCommit.substring\<close>, then \<open>git commit\<close>.
\<close>

definition updateParentRepository ::
  "system \<Rightarrow> updateContext \<Rightarrow> (error + unit) \<times> updateContext \<times> system" where
  "updateParentRepository s ctx =
     (case gitAdd s (submodule ctx) of
        Inl e \<Rightarrow> (Inl e, ctx, s)
      | Inr s1 \<Rightarrow>
          if currentCommit ctx = None \<or> targetCommit ctx = None
          then (Inl nullSubstring, ctx, s1)
          else (case gitCommit s1 of
                  Inl e \<Rightarrow> (Inl e, ctx, s1)
                | Inr s2 \<Rightarrow> (Inr (), ctx, s2)))"

subsection \<open>Rollback\<close>

definition rollbackUpdate :: "system \<Rightarrow> updateContext \<Rightarrow> (error + unit) \<times> system" where
  "rollbackUpdate s ctx =
     (case rollbackPoint ctx of
        None \<Rightarrow> (Inl (Error ''No rollback point available''), s)
      | Some rp \<Rightarrow>
          (case gitCheckout s (submodule ctx)
                  (case submoduleCommit rp of None \<Rightarrow> ''null'' | Some c \<Rightarrow> c) of
             Inl e \<Rightarrow> (Inl e, s)
           | Inr s1 \<Rightarrow>
               (case gitParentHead s1 of
                  None \<Rightarrow> (Inl nullTrim, s1)
                | Some out \<Rightarrow>
                    if trim out \<noteq> parentCommit rp
                    then (case gitResetHard1 s1 of
                            Inl e \<Rightarrow> (Inl e, s1)
                          | Inr s2 \<Rightarrow>
                              (Inr (), s2\<lparr>rollbackStack := butlast (rollbackStack s2)\<rparr>))
                    else (Inr (), s1\<lparr>rollbackStack := butlast (rollbackStack s1)\<rparr>))))"

text \<open>\<open>handleUpdateFailure\<close>: a failure of the rollback is logged and goes no further.\<close>

definition handleUpdateFailure :: "system \<Rightarrow> updateContext \<Rightarrow> error \<Rightarrow> system" where
  "handleUpdateFailure s ctx err =
     (case rollbackUpdate s ctx of
        (Inl rollbackError, s') \<Rightarrow> s'
      | (Inr u, s') \<Rightarrow> s')"

subsection \<open>One update\<close>

text \<open>
  The \<open>try\<close> block of \<open>updateSubmodule\<close>: the five steps in order, stopping at the first
  exception with the context and the system as they are then.
\<close>

definition updateSteps ::
  "system \<Rightarrow> updateContext \<Rightarrow> (error + unit) \<times> updateContext \<times> system" where
  "updateSteps s ctx =
     (case preUpdateValidation s ctx of
        (Inl e, c1) \<Rightarrow> (Inl e, c1, s)
      | (Inr u1, c1) \<Rightarrow>
     (case createRollbackPoint s c1 of
        (Inl e, c2, s2) \<Rightarrow> (Inl e, c2, s2)
      | (Inr u2, c2, s2) \<Rightarrow>
     (case performUpdate s2 c2 of
        (Inl e, c3, s3) \<Rightarrow> (Inl e, c3, s3)
      | (Inr u3, c3, s3) \<Rightarrow>
     (case postUpdateValidation s3 c3 of
        (Inl e, c4) \<Rightarrow> (Inl e, c4, s3)
      | (Inr u4, c4) \<Rightarrow> updateParentRepository s3 c4))))"

definition newContext :: "string \<Rightarrow> string \<Rightarrow> updateContext" where
  "newContext submodulePath tv =
     \<lparr>submodule = submodulePath, targetVersion = tv, currentCommit = None,
      targetCommit = None, updateType = None, qualityGates = None, contracts = None,
      rollbackPoint = None, approved = None\<rparr>"

text \<open>
  \<open>updateSubmodule\<close>: \<open>options\<close> is passed on to \<open>performUpdate\<close>, which does not read
  it; nothing is copied from it into the context. The \<open>catch\<close> block runs
  \<open>handleUpdateFailure\<close> and then rethrows the error it caught.
\<close>

definition updateSubmodule ::
  "system \<Rightarrow> string \<Rightarrow> string \<Rightarrow> (string \<times> jsval) list
     \<Rightarrow> (error + updateContext) \<times> system" where
  "updateSubmodule s submodulePath tv options =
     (case updateSteps s (newContext submodulePath tv) of
        (Inr u, ctx, s') \<Rightarrow> (Inr ctx, s')
      | (Inl err, ctx, s') \<Rightarrow> (Inl err, handleUpdateFailure s' ctx err))"

subsection \<open>Batch update\<close>

record updateRequest =
  reqSubmodule :: string
  reqTargetVersion :: string

record failure =
  failedSubmodule :: string
  failedTargetVersion :: string
  failedError :: string

record batchResults =
  successful :: "updateContext list"
  failed :: "failure list"
  skipped :: "updateRequest list"

definition determineUpdateTypeSync :: "updateRequest \<Rightarrow> string" where
  "determineUpdateTypeSync u = ''medium''"

definition riskOrder :: "string \<Rightarrow> rat option" where
  "riskOrder l =
     (if l = ''low'' then Some 1 else if l = ''medium'' then Some 2
      else if l = ''high'' then Some 3 else None)"

text \<open>
  The comparator of the sort. Reading \<open>riskLevel\<close> of a strategy that is \<open>undefined\<close>
  raises a \<open>TypeError\<close>; a difference with an \<open>undefined\<close> operand is \<open>NaN\<close>, which the
  sort takes as 0.
\<close>

definition undefinedRiskLevel :: error where
  "undefinedRiskLevel = TypeError ''Cannot read properties of undefined (reading riskLevel)''"

definition compareRisk :: "updateRequest \<Rightarrow> updateRequest \<Rightarrow> error + rat" where
  "compareRisk a b =
     (let aType = determineUpdateTypeSync a; bType = determineUpdateTypeSync b
      in case updateStrategies aType of
           None \<Rightarrow> Inl undefinedRiskLevel
         | Some sa \<Rightarrow>
             (case updateStrategies bType of
                None \<Rightarrow> Inl undefinedRiskLevel
              | Some sb \<Rightarrow>
                  (case (riskOrder (riskLevel sa), riskOrder (riskLevel sb)) of
                     (Some x, Some y) \<Rightarrow> Inr (x - y)
                   | _ \<Rightarrow> Inr 0)))"

text \<open>
  \<open>Array.prototype.sort\<close> with a comparator: a stable sort that calls the comparator only
  on pairs of elements (never for fewer than two elements) and stops at the first
  exception the comparator raises. It is modelled as an insertion sort.
\<close>

fun insertBy :: "('a \<Rightarrow> 'a \<Rightarrow> error + rat) \<Rightarrow> 'a \<Rightarrow> 'a list \<Rightarrow> error + 'a list" where
  "insertBy cmp x [] = Inr [x]"
| "insertBy cmp x (y # ys) =
     (case cmp x y of
        Inl e \<Rightarrow> Inl e
      | Inr d \<Rightarrow>
          if d \<le> 0 then Inr (x # y # ys)
          else (case insertBy cmp x ys of Inl e \<Rightarrow> Inl e | Inr zs \<Rightarrow> Inr (y # zs)))"

fun sortBy :: "('a \<Rightarrow> 'a \<Rightarrow> error + rat) \<Rightarrow> 'a list \<Rightarrow> error + 'a list" where
  "sortBy cmp [] = Inr []"
| "sortBy cmp (x # xs) =
     (case sortBy cmp xs of Inl e \<Rightarrow> Inl e | Inr ys \<Rightarrow> insertBy cmp x ys)"

text \<open>The \<open>for\<close> loop of \<open>batchUpdate\<close>, with its \<open>try\<close>/\<open>catch\<close> and \<open>break\<close>.\<close>

fun batchLoop ::
  "system \<Rightarrow> (string \<times> jsval) list \<Rightarrow> updateRequest list \<Rightarrow> batchResults
     \<Rightarrow> batchResults \<times> system" where
  "batchLoop s options [] results = (results, s)"
| "batchLoop s options (u # us) results =
     (case updateSubmodule s (reqSubmodule u) (reqTargetVersion u)
             (options @ [(''batchMode'', Bool True)]) of
        (Inr result, s') \<Rightarrow>
          batchLoop s' options us (results\<lparr>successful := successful results @ [result]\<rparr>)
      | (Inl err, s') \<Rightarrow>
          (let results' = results\<lparr>failed := failed results @
                  [\<lparr>failedSubmodule = reqSubmodule u,
                    failedTargetVersion = reqTargetVersion u,
                    failedError = message err\<rparr>]\<rparr>
           in if (case map_of options ''stopOnError'' of None \<Rightarrow> False | Some v \<Rightarrow> toBoolean v)
              then (results', s')
              else batchLoop s' options us results'))"

definition batchUpdate ::
  "system \<Rightarrow> updateRequest list \<Rightarrow> (string \<times> jsval) list
     \<Rightarrow> (error + batchResults) \<times> system" where
  "batchUpdate s updates options =
     (case sortBy compareRisk updates of
        Inl e \<Rightarrow> (Inl e, s)
      | Inr sortedUpdates \<Rightarrow>
          (case batchLoop s options sortedUpdates
                  \<lparr>successful = [], failed = [], skipped = []\<rparr> of
             (results, s') \<Rightarrow> (Inr results, s')))"

section \<open>Notions the properties are stated with\<close>

text \<open>
  The weighted mean of the specification: the gates of the table that have a result, with
  that result; the sum of score times weight over them, divided by the sum of their weights.
\<close>

definition presentPairs ::
  "(string \<times> gateResult) list \<Rightarrow> gate list \<Rightarrow> (gate \<times> gateResult) list" where
  "presentPairs rs gs =
     List.map_filter (\<lambda>g. map_option (Pair g) (map_of rs (gateKey g))) gs"

definition weightedSum :: "(string \<times> gateResult) list \<Rightarrow> gate list \<Rightarrow> rat" where
  "weightedSum rs gs = (\<Sum>(g, r)\<leftarrow>presentPairs rs gs. score r * weight g)"

definition presentWeight :: "(string \<times> gateResult) list \<Rightarrow> gate list \<Rightarrow> rat" where
  "presentWeight rs gs = (\<Sum>(g, r)\<leftarrow>presentPairs rs gs. weight g)"


text \<open>Every gate marked critical has a result, and that result has \<open>passed = true\<close>.\<close>

definition allCriticalPassed ::
  "ProductionQualityGates \<Rightarrow> (string \<times> gateResult) list \<Rightarrow> bool" where
  "allCriticalPassed this rs =
     (\<forall>g\<in>set (gates this).
        critical g \<longrightarrow>
          (case map_of rs (gateKey g) of None \<Rightarrow> False | Some r \<Rightarrow> passed r))"

text \<open>None of the five gate methods raises for the service.\<close>

definition allGatesReturn :: "gateMethods \<Rightarrow> string \<Rightarrow> bool" where
  "allGatesReturn m p =
     (\<not> isl (securityMethod m p) \<and> \<not> isl (stabilityMethod m p) \<and>
      \<not> isl (performanceMethod m p) \<and> \<not> isl (contractMethod m p) \<and>
      \<not> isl (deploymentMethod m p))"

subsection \<open>Sample inputs\<close>

definition sampleResult :: "rat \<Rightarrow> bool \<Rightarrow> gateResult" where
  "sampleResult sc ok =
     \<lparr>gname = [], score = sc, maxScore = 100, passed = ok, checks = [], issues = []\<rparr>"


text \<open>Four gates at 100 that passed, and the deployment gate at 0, failed.\<close>

definition vetoMethods :: gateMethods where
  "vetoMethods =
     \<lparr>securityMethod = (\<lambda>p. Inr (sampleResult 100 True)),
      stabilityMethod = (\<lambda>p. Inr (sampleResult 100 True)),
      performanceMethod = (\<lambda>p. Inr (sampleResult 100 True)),
      contractMethod = (\<lambda>p. Inr (sampleResult 100 True)),
      deploymentMethod = (\<lambda>p. Inr (sampleResult 0 False))\<rparr>"

text \<open>Gate methods of which the fourth raises.\<close>

definition raisingMethods :: gateMethods where
  "raisingMethods =
     \<lparr>securityMethod = (\<lambda>p. Inr (sampleResult 100 True)),
      stabilityMethod = (\<lambda>p. Inr (sampleResult 100 True)),
      performanceMethod = (\<lambda>p. Inr (sampleResult 100 True)),
      contractMethod = (\<lambda>p. Inl (Error ''validator missing'')),
      deploymentMethod = (\<lambda>p. Inr (sampleResult 100 True))\<rparr>"

text \<open>
  A service with a security policy, a complete \<open>.gitignore\<close>, an \<open>.env.example\<close>, no
  hard-coded secret and two known vulnerabilities.
\<close>

definition sampleFacts :: serviceFacts where
  "sampleFacts =
     \<lparr>hasFile = (\<lambda>n. n \<in> set [''SECURITY.md'', ''.gitignore'', ''.env.example'',
                               ''package.json'']),
      readGitignore = Inr ''node_modules .env *.key *.pem'',
      noSecretsScan = True,
      auditTotal = Some 2,
      latestTag = Some ''v1.0.0'',
      contract = \<lparr>hasContract = False, isValid = False, compatibilityScore = 0,
                   breakingChanges = [], version = None\<rparr>,
      npmCi = True\<rparr>"

text \<open>
  A submodule \<open>dashboard\<close> at tag \<open>v1.0.0\<close> (commit \<open>c100\<close>), with tags \<open>v1.0.1\<close> and
  \<open>v2.0.0\<close>; its probes print a line; a fetch moves the tag \<open>v1.0.1\<close> from commit
  \<open>c101\<close> to commit \<open>c102\<close>. The parent repository is at commit \<open>p0\<close> on \<open>main\<close>.
\<close>

definition sampleRepo :: subrepo where
  "sampleRepo =
     \<lparr>headCommit = ''c100'',
      tags = [(''v1.0.0'', ''c100''), (''v1.0.1'', ''c101''), (''v2.0.0'', ''c200'')],
      objects = [''c100'', ''c101'', ''c200''],
      cleanProbe = Some ''clean'',
      tagProbe = (\<lambda>t. if t \<in> set [''v1.0.0'', ''v1.0.1'', ''v2.0.0''] then Some t else None),
      describeAt = (\<lambda>c. if c = ''c100'' then Some (''v1.0.0'' @ newline) else None),
      fetchResult =
        Some ([(''v1.0.0'', ''c100''), (''v1.0.1'', ''c102''), (''v2.0.0'', ''c200'')],
              [''c100'', ''c101'', ''c102'', ''c200''])\<rparr>"

definition sampleSystem :: system where
  "sampleSystem =
     \<lparr>existsSync = (\<lambda>p. p = ''dashboard''),
      repos = (\<lambda>p. if p = ''dashboard'' then Some sampleRepo else None),
      parentLog = [''p0''],
      parentBranch = Some ''main'',
      commitSupply = [''p1''],
      facts = (\<lambda>p c. sampleFacts),
      submodulePaths = [''dashboard''],
      rollbackStack = []\<rparr>"

text \<open>
  The same system after an earlier update has left its rollback point on the stack and a
  later update of \<open>dashboard\<close> has pushed its own and checked out commit \<open>c101\<close>; the
  context of that later update.
\<close>

definition earlierPoint :: rollbackPoint where
  "earlierPoint = \<lparr>submoduleCommit = Some ''a7'', parentCommit = ''p0'', branch = ''main''\<rparr>"

definition laterPoint :: rollbackPoint where
  "laterPoint = \<lparr>submoduleCommit = Some ''c100'', parentCommit = ''p0'', branch = ''main''\<rparr>"

definition midUpdateSystem :: system where
  "midUpdateSystem =
     sampleSystem
       \<lparr>repos := (\<lambda>p. if p = ''dashboard'' then Some (sampleRepo\<lparr>headCommit := ''c101''\<rparr>)
                        else None),
        rollbackStack := [earlierPoint, laterPoint]\<rparr>"

definition midUpdateContext :: updateContext where
  "midUpdateContext =
     (newContext ''dashboard'' ''v1.0.1'')
       \<lparr>currentCommit := Some ''c100'', targetCommit := Some ''c101'',
        updateType := Some ''patch'', rollbackPoint := Some laterPoint\<rparr>"

section \<open>Evaluation rules for concrete inputs\<close>

lemmas semver_simps = semverMatch_def digits1_def dot_def optV_def isDigit_def digitVal_def
  parseInt_def decimal_def toNumber_def parseSemanticVersion_def isSemanticVersion_def
  classify_def classifyTry_def Let_def

lemmas key_simps = gateKey_def toLowerCase_def lowerChar_def

lemmas git_simps = gitDiffQuiet_def gitTagProbe_def gitRevParseHead_def gitRevParse_def
  gitDescribe_def gitParentHead_def gitBranchShowCurrent_def resolveRef_def
  gitFetchTags_def gitCheckout_def gitResetHard1_def getCurrentVersion_def
  trim_def isSpace_def newline_def truthy_def


section \<open>Properties of the version classifier\<close>

lemma parseSemanticVersion_total:
  "isSemanticVersion v \<Longrightarrow> \<exists>t. parseSemanticVersion v = Inr t"
  by (auto simp: isSemanticVersion_def parseSemanticVersion_def split: option.splits)

lemma isSemanticVersion_nonempty: "isSemanticVersion v \<Longrightarrow> v \<noteq> []"
  by (auto simp: isSemanticVersion_def semverMatch_def digits1_def optV_def)

text \<open>Below \<open>2 ^ 53\<close> the number \<open>parseInt\<close> returns is the decimal value of the digits.\<close>

lemma parseInt_exact:
  "decimal (takeWhile isDigit ds) < 2 ^ 53 \<Longrightarrow> parseInt ds = enat (decimal (takeWhile isDigit ds))"
  by (simp add: parseInt_def toNumber_def)

lemma parseInt_rounds: "parseInt ''9007199254740993'' = enat 9007199254740992"
  by (simp add: semver_simps bitlen.simps)

lemma classify_cases:
  "classify c t = ''major'' \<or> classify c t = ''minor'' \<or> classify c t = ''patch''"
  by (auto simp: classify_def classifyTry_def split: option.splits sum.splits)

text \<open>
  The chain of comparisons is not an order on versions: a target with a lower major and a
  higher minor number is classified as a minor update.
\<close>

lemma classify_lower_major: "classify (Some ''2.0.0'') ''1.5.0'' = ''minor''"
  by (simp add: semver_simps)

text \<open>
  C3. When the current and the target version both match the version pattern, the
  classification parses both into triples of numbers without raising, and its result is:
  major if the target's major number is greater than the current one; else minor if the
  target's minor number is greater; else patch (whether or not the target's patch number is
  greater).
\<close>

theorem classify_semver:
  assumes "isSemanticVersion cur" and "isSemanticVersion tgt"
  shows "\<exists>c t. parseSemanticVersion cur = Inr c \<and> parseSemanticVersion tgt = Inr t \<and>
           classifyTry (Some cur) tgt =
             Inr (if major c < major t then ''major''
                  else if minor c < minor t then ''minor''
                  else if patch c < patch t then ''patch''
                  else ''patch'') \<and>
           classify (Some cur) tgt =
             (if major c < major t then ''major''
              else if minor c < minor t then ''minor''
              else if patch c < patch t then ''patch''
              else ''patch'')"
proof -
  from assms(1) obtain c where c: "parseSemanticVersion cur = Inr c"
    using parseSemanticVersion_total by blast
  from assms(2) obtain t where t: "parseSemanticVersion tgt = Inr t"
    using parseSemanticVersion_total by blast
  have ne: "cur \<noteq> []"
    using assms(1) by (rule isSemanticVersion_nonempty)
  show ?thesis
    using assms c t ne by (simp add: classify_def classifyTry_def)
qed

text \<open>The three examples of the specification, each an instance of the theorem.\<close>

theorem classify_semver_witness:
  "isSemanticVersion ''1.2.3'' \<and> isSemanticVersion ''1.3.0'' \<and>
   isSemanticVersion ''2.0.0'' \<and>
   classify (Some ''1.2.3'') ''1.3.0'' = ''minor'' \<and>
   classify (Some ''1.2.3'') ''2.0.0'' = ''major'' \<and>
   classify (Some ''1.2.3'') ''1.2.3'' = ''patch''"
proof -
  have a: "isSemanticVersion ''1.2.3''" by (simp add: semver_simps)
  have b: "isSemanticVersion ''1.3.0''" by (simp add: semver_simps)
  have c: "isSemanticVersion ''2.0.0''" by (simp add: semver_simps)
  have p: "parseSemanticVersion ''1.2.3'' = Inr \<lparr>major = 1, minor = 2, patch = 3\<rparr>"
    by (simp add: semver_simps one_enat_def numeral_eq_enat)
  have q: "parseSemanticVersion ''1.3.0'' = Inr \<lparr>major = 1, minor = 3, patch = 0\<rparr>"
    by (simp add: semver_simps one_enat_def zero_enat_def numeral_eq_enat)
  have r: "parseSemanticVersion ''2.0.0'' = Inr \<lparr>major = 2, minor = 0, patch = 0\<rparr>"
    by (simp add: semver_simps zero_enat_def numeral_eq_enat)
  have 1: "classify (Some ''1.2.3'') ''1.3.0'' = ''minor''"
    using classify_semver [OF a b] p q by simp
  have 2: "classify (Some ''1.2.3'') ''2.0.0'' = ''major''"
    using classify_semver [OF a c] p r by simp
  have 3: "classify (Some ''1.2.3'') ''1.2.3'' = ''patch''"
    using classify_semver [OF a a] p by simp
  show ?thesis using a b c 1 2 3 by simp
qed

text \<open>
  C4. When the current or the target version does not match the version pattern, the
  classification returns major, and it does so without raising: the \<open>try\<close> block itself
  returns major. The same holds when no current version could be read.
\<close>

theorem classify_non_semver:
  assumes "\<not> isSemanticVersion cur \<or> \<not> isSemanticVersion tgt"
  shows "classifyTry (Some cur) tgt = Inr ''major'' \<and> classify (Some cur) tgt = ''major'' \<and>
         classifyTry None tgt = Inr ''major'' \<and> classify None tgt = ''major''"
  using assms by (auto simp: classify_def classifyTry_def)

theorem classify_non_semver_witness:
  "\<not> isSemanticVersion ''HEAD'' \<and> classifyTry (Some ''HEAD'') ''v1.0.0'' = Inr ''major'' \<and>
   classify (Some ''HEAD'') ''v1.0.0'' = ''major''"
proof -
  have h: "\<not> isSemanticVersion ''HEAD''" by (simp add: semver_simps)
  then have "\<not> isSemanticVersion ''HEAD'' \<or> \<not> isSemanticVersion ''v1.0.0''" by simp
  from classify_non_semver [OF this] h show ?thesis by simp
qed

section \<open>Properties of the quality gates\<close>

lemma presentPairs_Nil: "presentPairs rs [] = []"
  by (simp add: presentPairs_def map_filter_simps)

lemma presentPairs_Cons:
  "presentPairs rs (g # gs) =
     (case map_of rs (gateKey g) of
        None \<Rightarrow> presentPairs rs gs
      | Some r \<Rightarrow> (g, r) # presentPairs rs gs)"
  by (simp add: presentPairs_def map_filter_simps split: option.splits)

text \<open>The loop of \<open>calculateOverallScore\<close> adds the two sums to its accumulators.\<close>

lemma sumGates_eq:
  "sumGates rs gs (a, b) = (a + weightedSum rs gs / 100, b + presentWeight rs gs)"
proof (induction gs arbitrary: a b)
  case Nil
  show ?case by (simp add: weightedSum_def presentWeight_def presentPairs_Nil)
next
  case (Cons g gs)
  show ?case
  proof (cases "map_of rs (gateKey g)")
    case None
    then show ?thesis
      using Cons.IH by (simp add: weightedSum_def presentWeight_def presentPairs_Cons)
  next
    case (Some r)
    then show ?thesis
      using Cons.IH
      by (simp add: weightedSum_def presentWeight_def presentPairs_Cons add_divide_distrib
            algebra_simps)
  qed
qed

text \<open>With no result at all, or a total weight that is not positive, the score is 0.\<close>

lemma overall_score_no_weight:
  "presentWeight rs (gates this) \<le> 0 \<Longrightarrow> calculateOverallScore this rs = 0"
  by (simp add: calculateOverallScore_def sumGates_eq)

lemma class_table_keys:
  "gateKey \<lparr>name = ''Security Gate'', weight = w1, critical = c1\<rparr> = ''security''"
  "gateKey \<lparr>name = ''Stability Gate'', weight = w2, critical = c2\<rparr> = ''stability''"
  "gateKey \<lparr>name = ''Performance Gate'', weight = w3, critical = c3\<rparr> = ''performance''"
  "gateKey \<lparr>name = ''Contract Gate'', weight = w4, critical = c4\<rparr> = ''contract''"
  "gateKey \<lparr>name = ''Deployment Gate'', weight = w5, critical = c5\<rparr> = ''deployment''"
  by (simp_all add: key_simps)





lemma criticalGatesPass_iff:
  "criticalGatesPass rs gs \<longleftrightarrow>
     (\<forall>g\<in>set gs. critical g \<longrightarrow>
        (case map_of rs (gateKey g) of None \<Rightarrow> False | Some r \<Rightarrow> passed r))"
  by (induction gs) (auto split: option.splits)

lemma canServiceDeploy_iff:
  "canServiceDeploy this ev \<longleftrightarrow>
     minimumScore this \<le> overallScore ev \<and> allCriticalPassed this (gateResults ev)"
  by (auto simp: canServiceDeploy_def criticalGatesPass_iff allCriticalPassed_def)

lemma collectIssuesLoop_fields:
  "overallScore (collectIssuesLoop this rs ev) = overallScore ev \<and>
   canDeploy (collectIssuesLoop this rs ev) = canDeploy ev \<and>
   gateResults (collectIssuesLoop this rs ev) = gateResults ev \<and>
   service (collectIssuesLoop this rs ev) = service ev"
  by (induction this rs ev rule: collectIssuesLoop.induct) (auto split: option.splits)

lemma setResult_fields:
  "canDeploy (setResult k r ev) = canDeploy ev"
  "overallScore (setResult k r ev) = overallScore ev"
  "criticalFailures (setResult k r ev) = criticalFailures ev"
  "warnings (setResult k r ev) = warnings ev"
  "service (setResult k r ev) = service ev"
  by (simp_all add: setResult_def)

lemma failEvaluation_fields:
  "canDeploy (failEvaluation e ev) = canDeploy ev"
  "overallScore (failEvaluation e ev) = overallScore ev"
  "gateResults (failEvaluation e ev) = gateResults ev"
  "service (failEvaluation e ev) = service ev"
  "criticalFailures (failEvaluation e ev) =
     criticalFailures ev @ [''Quality gate evaluation failed: '' @ message e]"
  by (simp_all add: failEvaluation_def)

lemma evaluateServiceGates_canDeploy:
  "canDeploy (evaluateServiceGates this m p) \<longleftrightarrow>
     minimumScore this \<le> overallScore (evaluateServiceGates this m p) \<and>
     allCriticalPassed this (gateResults (evaluateServiceGates this m p)) \<and>
     allGatesReturn m p"
  by (simp add: evaluateServiceGates_def Let_def collectIssues_def setResult_fields
        failEvaluation_fields collectIssuesLoop_fields canServiceDeploy_iff allGatesReturn_def
        split: sum.splits)

lemma evaluateServiceGates_raise_score:
  "\<not> allGatesReturn m p \<Longrightarrow> overallScore (evaluateServiceGates this m p) = 0"
  by (auto simp: evaluateServiceGates_def Let_def setResult_fields failEvaluation_fields
        allGatesReturn_def split: sum.splits)

lemma evaluateServiceGates_service: "service (evaluateServiceGates this m p) = p"
  by (simp add: evaluateServiceGates_def Let_def setResult_fields failEvaluation_fields
        collectIssues_def collectIssuesLoop_fields split: sum.splits)

text \<open>The methods of the class itself never raise.\<close>

lemma classMethods_return: "allGatesReturn (classMethods this fs) p"
  by (simp add: allGatesReturn_def classMethods_def)

text \<open>When the five methods return, the evaluation holds their results under the five keys.\<close>

lemma evaluateServiceGates_results:
  assumes "securityMethod m p = Inr a" and "stabilityMethod m p = Inr b"
    and "performanceMethod m p = Inr c" and "contractMethod m p = Inr d"
    and "deploymentMethod m p = Inr e"
  shows "gateResults (evaluateServiceGates this m p) =
           [(''security'', a), (''stability'', b), (''performance'', c), (''contract'', d),
            (''deployment'', e)]"
    and "overallScore (evaluateServiceGates this m p) =
           calculateOverallScore this
             [(''security'', a), (''stability'', b), (''performance'', c), (''contract'', d),
              (''deployment'', e)]"
  using assms
  by (simp_all add: evaluateServiceGates_def Let_def collectIssues_def collectIssuesLoop_fields
        setResult_def del: collectIssuesLoop.simps)

lemma overall_score_five:
  "calculateOverallScore newProductionQualityGates
     [(''security'', a), (''stability'', b), (''performance'', c), (''contract'', d),
      (''deployment'', e)] =
   (score a * 25 + score b * 20 + score c * 15 + score d * 20 + score e * 20) / 100"
  unfolding newProductionQualityGates_def calculateOverallScore_def
  by (simp only: sumGates.simps class_table_keys ProductionQualityGates.simps gate.simps)
     (simp add: add_divide_distrib)

lemma allCriticalPassed_class_table:
  "allCriticalPassed newProductionQualityGates rs \<longleftrightarrow>
     (case map_of rs ''security'' of None \<Rightarrow> False | Some r \<Rightarrow> passed r) \<and>
     (case map_of rs ''stability'' of None \<Rightarrow> False | Some r \<Rightarrow> passed r) \<and>
     (case map_of rs ''contract'' of None \<Rightarrow> False | Some r \<Rightarrow> passed r) \<and>
     (case map_of rs ''deployment'' of None \<Rightarrow> False | Some r \<Rightarrow> passed r)"
  unfolding newProductionQualityGates_def allCriticalPassed_def
  by (simp add: class_table_keys)

lemma veto_evaluation:
  "overallScore (evaluateServiceGates newProductionQualityGates vetoMethods ''svc'') = 80 \<and>
   gateResults (evaluateServiceGates newProductionQualityGates vetoMethods ''svc'') =
     [(''security'', sampleResult 100 True), (''stability'', sampleResult 100 True),
      (''performance'', sampleResult 100 True), (''contract'', sampleResult 100 True),
      (''deployment'', sampleResult 0 False)]"
proof -
  have m: "securityMethod vetoMethods ''svc'' = Inr (sampleResult 100 True)"
    "stabilityMethod vetoMethods ''svc'' = Inr (sampleResult 100 True)"
    "performanceMethod vetoMethods ''svc'' = Inr (sampleResult 100 True)"
    "contractMethod vetoMethods ''svc'' = Inr (sampleResult 100 True)"
    "deploymentMethod vetoMethods ''svc'' = Inr (sampleResult 0 False)"
    by (simp_all add: vetoMethods_def)
  show ?thesis
    by (simp add: evaluateServiceGates_results [OF m] overall_score_five)
       (simp add: sampleResult_def)
qed

text \<open>
  C1. \<open>canDeploy\<close> is true if and only if the overall score is at least 80 and every gate
  marked critical has a result with \<open>passed = true\<close>: for \<open>canServiceDeploy\<close> on any
  evaluation, and for the \<open>canDeploy\<close> field of every evaluation that
  \<open>evaluateServiceGates\<close> returns, whatever the gate methods do. So one critical gate that
  did not pass makes \<open>canDeploy\<close> false whatever the score.
\<close>

theorem canDeploy_iff_score_and_critical:
  "(canServiceDeploy newProductionQualityGates ev \<longleftrightarrow>
      80 \<le> overallScore ev \<and> allCriticalPassed newProductionQualityGates (gateResults ev)) \<and>
   (canDeploy (evaluateServiceGates newProductionQualityGates m p) \<longleftrightarrow>
      80 \<le> overallScore (evaluateServiceGates newProductionQualityGates m p) \<and>
      allCriticalPassed newProductionQualityGates
        (gateResults (evaluateServiceGates newProductionQualityGates m p)))"
proof
  show "canServiceDeploy newProductionQualityGates ev \<longleftrightarrow>
      80 \<le> overallScore ev \<and> allCriticalPassed newProductionQualityGates (gateResults ev)"
    by (simp add: canServiceDeploy_iff) (simp add: newProductionQualityGates_def)
next
  have min: "minimumScore newProductionQualityGates = 80"
    by (simp add: newProductionQualityGates_def)
  show "canDeploy (evaluateServiceGates newProductionQualityGates m p) \<longleftrightarrow>
      80 \<le> overallScore (evaluateServiceGates newProductionQualityGates m p) \<and>
      allCriticalPassed newProductionQualityGates
        (gateResults (evaluateServiceGates newProductionQualityGates m p))"
  proof (cases "allGatesReturn m p")
    case True
    then show ?thesis
      using evaluateServiceGates_canDeploy [of newProductionQualityGates m p] min by simp
  next
    case False
    then have "overallScore (evaluateServiceGates newProductionQualityGates m p) = 0"
      by (rule evaluateServiceGates_raise_score)
    then show ?thesis
      using evaluateServiceGates_canDeploy [of newProductionQualityGates m p] False by simp
  qed
qed

text \<open>
  Security, stability, performance and contract at 100 and passed, deployment at 0 and
  failed: the overall score is 80, and \<open>canDeploy\<close> is false.
\<close>

theorem canDeploy_veto_witness:
  "overallScore (evaluateServiceGates newProductionQualityGates vetoMethods ''svc'') = 80 \<and>
   \<not> allCriticalPassed newProductionQualityGates
       (gateResults (evaluateServiceGates newProductionQualityGates vetoMethods ''svc'')) \<and>
   \<not> canDeploy (evaluateServiceGates newProductionQualityGates vetoMethods ''svc'')"
proof -
  have "\<not> allCriticalPassed newProductionQualityGates
       (gateResults (evaluateServiceGates newProductionQualityGates vetoMethods ''svc''))"
    using veto_evaluation by (simp add: allCriticalPassed_class_table sampleResult_def)
  then show ?thesis
    using canDeploy_iff_score_and_critical
      [of "evaluateServiceGates newProductionQualityGates vetoMethods ''svc''" vetoMethods
          "''svc''"]
      veto_evaluation
    by simp
qed

text \<open>When reading \<open>.gitignore\<close> raises, the security gate has score 0 and has failed.\<close>

lemma security_gate_raise:
  assumes "checkSecureGitignore f = Inl e"
  shows "score (evaluateSecurityGate this f) = 0 \<and> \<not> passed (evaluateSecurityGate this f) \<and>
         issues (evaluateSecurityGate this f) = [''Security evaluation failed: '' @ message e]"
  using assms by (simp add: evaluateSecurityGate_def Let_def)



text \<open>
  C10. \<open>evaluateServiceGates\<close> always returns an evaluation of the service it was given.
  If a gate method raises, the evaluation it returns has \<open>canDeploy = false\<close>, and its
  \<open>criticalFailures\<close> hold one entry, the message of an error that a gate method raised,
  after the words "Quality gate evaluation failed: ".
\<close>

theorem evaluateServiceGates_total:
  assumes "securityMethod m p = Inl e \<or> stabilityMethod m p = Inl e \<or>
           performanceMethod m p = Inl e \<or> contractMethod m p = Inl e \<or>
           deploymentMethod m p = Inl e"
  shows "service (evaluateServiceGates this m p) = p \<and>
         \<not> canDeploy (evaluateServiceGates this m p) \<and>
         (\<exists>e'. (securityMethod m p = Inl e' \<or> stabilityMethod m p = Inl e' \<or>
                 performanceMethod m p = Inl e' \<or> contractMethod m p = Inl e' \<or>
                 deploymentMethod m p = Inl e') \<and>
            criticalFailures (evaluateServiceGates this m p) =
              [''Quality gate evaluation failed: '' @ message e'])"
  using assms
  by (auto simp: evaluateServiceGates_def Let_def setResult_fields failEvaluation_fields
        split: sum.splits)

theorem evaluateServiceGates_total_witness:
  "contractMethod raisingMethods ''svc'' = Inl (Error ''validator missing'') \<and>
   \<not> canDeploy (evaluateServiceGates newProductionQualityGates raisingMethods ''svc'') \<and>
   criticalFailures (evaluateServiceGates newProductionQualityGates raisingMethods ''svc'') =
     [''Quality gate evaluation failed: validator missing'']"
proof -
  have c: "contractMethod raisingMethods ''svc'' = Inl (Error ''validator missing'')"
    by (simp add: raisingMethods_def)
  then have "securityMethod raisingMethods ''svc'' = Inl (Error ''validator missing'') \<or>
      stabilityMethod raisingMethods ''svc'' = Inl (Error ''validator missing'') \<or>
      performanceMethod raisingMethods ''svc'' = Inl (Error ''validator missing'') \<or>
      contractMethod raisingMethods ''svc'' = Inl (Error ''validator missing'') \<or>
      deploymentMethod raisingMethods ''svc'' = Inl (Error ''validator missing'')"
    by simp
  from evaluateServiceGates_total [OF this, of newProductionQualityGates] c
  show ?thesis by (auto simp: raisingMethods_def)
qed

section \<open>Properties of the safe update\<close>

lemma preUpdateValidation_rollbackPoint:
  "rollbackPoint (snd (preUpdateValidation s ctx)) = rollbackPoint ctx"
  by (simp add: preUpdateValidation_def Let_def split: option.splits)

text \<open>
  Whatever makes the validation before the update fail, the update returns that error
  and leaves the system as it was: no reference has moved and nothing was pushed on the
  rollback stack.
\<close>

lemma validation_failure_no_mutation:
  assumes "fst (preUpdateValidation s (newContext p tv)) = Inl e"
  shows "updateSubmodule s p tv options = (Inl e, s)"
proof -
  obtain c where pv: "preUpdateValidation s (newContext p tv) = (Inl e, c)"
    using assms by (cases "preUpdateValidation s (newContext p tv)") auto
  have "rollbackPoint c = None"
    using preUpdateValidation_rollbackPoint [of s "newContext p tv"] pv
    by (simp add: newContext_def)
  then show ?thesis
    using pv
    by (simp add: updateSubmodule_def updateSteps_def handleUpdateFailure_def rollbackUpdate_def)
qed


text \<open>
  A probe that prints nothing counts as a failed probe: \<open>!execQuiet(...)\<close> is true for the
  empty string as it is for \<open>null\<close>. With a clean-tree probe that prints nothing the
  validation stops at "has uncommitted changes", before the update type is classified.
\<close>

lemma silent_probe_rejects:
  assumes "existsSync s p" and "gitDiffQuiet s p = Some []"
  shows "updateSubmodule s p tv options =
           (Inl (Error (''Submodule '' @ p @ '' has uncommitted changes'')), s)"
proof -
  have "fst (preUpdateValidation s (newContext p tv)) =
          Inl (Error (''Submodule '' @ p @ '' has uncommitted changes''))"
    using assms by (simp add: preUpdateValidation_def Let_def newContext_def truthy_def)
  then show ?thesis by (rule validation_failure_no_mutation)
qed




lemma gitCheckout_again:
  assumes "gitCheckout s p x = Inr s'" and "repos s1 = repos s'"
  shows "gitCheckout s1 p x = Inr s1"
proof -
  from assms(1) obtain r c where r: "repos s p = Some r" and c: "resolveRef r x = Some c"
    and s': "s' = s\<lparr>repos := (repos s)(p := Some (r\<lparr>headCommit := c\<rparr>))\<rparr>"
    by (auto simp: gitCheckout_def Let_def split: option.splits)
  have r1: "repos s1 p = Some (r\<lparr>headCommit := c\<rparr>)"
    using assms(2) s' by simp
  have "resolveRef (r\<lparr>headCommit := c\<rparr>) x = resolveRef r x"
    by (simp add: resolveRef_def)
  then have res: "resolveRef (r\<lparr>headCommit := c\<rparr>) x = Some c"
    using c by simp
  have "(repos s1)(p := Some (r\<lparr>headCommit := c\<rparr>)) = repos s1"
    using r1 by (simp add: fun_upd_idem)
  then show ?thesis
    using r1 res by (simp add: gitCheckout_def Let_def)
qed

lemma rollbackUpdate_success_repos:
  assumes "rollbackUpdate s ctx = (Inr u, s1)" and "rollbackPoint ctx = Some rp"
  shows "\<exists>s'. gitCheckout s (submodule ctx)
                (case submoduleCommit rp of None \<Rightarrow> ''null'' | Some c \<Rightarrow> c) = Inr s' \<and>
              repos s1 = repos s'"
  using assms
  by (auto simp: rollbackUpdate_def gitResetHard1_def
        split: option.splits sum.splits if_splits list.splits)

text \<open>
  C7, as the code has it. After a restore that succeeded and left the parent at the
  reference of the rollback point, a second restore of the same context succeeds too, and
  changes neither the module's reference nor the parent's; but it removes one more element
  from the rollback stack. Nothing records that the context was restored: the point stays
  in the context, the module is checked out again, and only the parent's reference is
  compared with the one snapshotted.
\<close>

theorem second_restore:
  assumes "rollbackUpdate s ctx = (Inr (), s1)"
    and "rollbackPoint ctx = Some rp"
    and "gitParentHead s1 = Some out"
    and "trim out = parentCommit rp"
  shows "rollbackUpdate s1 ctx = (Inr (), s1\<lparr>rollbackStack := butlast (rollbackStack s1)\<rparr>)"
proof -
  obtain s' where co: "gitCheckout s (submodule ctx)
        (case submoduleCommit rp of None \<Rightarrow> ''null'' | Some c \<Rightarrow> c) = Inr s'"
      and rs: "repos s1 = repos s'"
    using rollbackUpdate_success_repos [OF assms(1,2)] by blast
  have "gitCheckout s1 (submodule ctx)
          (case submoduleCommit rp of None \<Rightarrow> ''null'' | Some c \<Rightarrow> c) = Inr s1"
    using co rs by (rule gitCheckout_again)
  then show ?thesis
    using assms(2,3,4) by (simp add: rollbackUpdate_def)
qed

lemma first_restore_mid:
  "fst (rollbackUpdate midUpdateSystem midUpdateContext) = Inr () \<and>
   rollbackStack (snd (rollbackUpdate midUpdateSystem midUpdateContext)) = [earlierPoint] \<and>
   parentLog (snd (rollbackUpdate midUpdateSystem midUpdateContext)) = [''p0''] \<and>
   map_option headCommit (repos (snd (rollbackUpdate midUpdateSystem midUpdateContext)) ''dashboard'')
     = Some ''c100''"
  by (simp add: rollbackUpdate_def midUpdateSystem_def midUpdateContext_def newContext_def
        laterPoint_def sampleSystem_def sampleRepo_def git_simps)

theorem second_restore_witness:
  "fst (rollbackUpdate (snd (rollbackUpdate midUpdateSystem midUpdateContext)) midUpdateContext)
     = Inr () \<and>
   parentLog (snd (rollbackUpdate (snd (rollbackUpdate midUpdateSystem midUpdateContext))
      midUpdateContext)) = [''p0''] \<and>
   map_option headCommit
     (repos (snd (rollbackUpdate (snd (rollbackUpdate midUpdateSystem midUpdateContext))
        midUpdateContext)) ''dashboard'') = Some ''c100''"
proof -
  obtain s1 where s1: "rollbackUpdate midUpdateSystem midUpdateContext = (Inr (), s1)"
    using first_restore_mid by (cases "rollbackUpdate midUpdateSystem midUpdateContext") auto
  have rp: "rollbackPoint midUpdateContext = Some laterPoint"
    by (simp add: midUpdateContext_def)
  have pl: "parentLog s1 = [''p0'']"
    and hd: "map_option headCommit (repos s1 ''dashboard'') = Some ''c100''"
    using first_restore_mid s1 by simp_all
  have ph: "gitParentHead s1 = Some (''p0'' @ newline)"
    using pl by (simp add: gitParentHead_def)
  have tr: "trim (''p0'' @ newline) = parentCommit laterPoint"
    by (simp add: trim_def isSpace_def newline_def laterPoint_def)
  show ?thesis
    using second_restore [OF s1 rp ph tr] s1 pl hd by simp
qed

text \<open>
  With two points on the stack, the first restore of the later update's context succeeds
  and leaves the earlier point on the stack; the second restore succeeds and removes it.
\<close>

theorem second_restore_counterexample:
  "fst (rollbackUpdate midUpdateSystem midUpdateContext) = Inr () \<and>
   fst (rollbackUpdate (snd (rollbackUpdate midUpdateSystem midUpdateContext)) midUpdateContext)
     = Inr () \<and>
   rollbackStack (snd (rollbackUpdate midUpdateSystem midUpdateContext)) = [earlierPoint] \<and>
   rollbackStack
     (snd (rollbackUpdate (snd (rollbackUpdate midUpdateSystem midUpdateContext)) midUpdateContext))
     = []"
  by (simp add: rollbackUpdate_def midUpdateSystem_def midUpdateContext_def newContext_def
        laterPoint_def sampleSystem_def sampleRepo_def git_simps)





section \<open>Properties of the batch update\<close>

lemma compareRisk_raises: "compareRisk a b = Inl undefinedRiskLevel"
  by (simp add: compareRisk_def determineUpdateTypeSync_def updateStrategies_def)

lemma insertBy_raises:
  assumes "\<And>a b. cmp a b = Inl e"
  shows "insertBy cmp x ys = (if ys = [] then Inr [x] else Inl e)"
  using assms by (cases ys) simp_all

lemma sortBy_raises:
  assumes "\<And>a b. cmp a b = Inl e"
  shows "sortBy cmp xs = (case xs of [] \<Rightarrow> Inr [] | [x] \<Rightarrow> Inr [x] | x # y # zs \<Rightarrow> Inl e)"
proof (induction xs)
  case Nil
  show ?case by simp
next
  case (Cons x xs)
  then show ?case
    using assms by (simp add: insertBy_raises split: list.splits)
qed

text \<open>Any batch of two or more requests raises in the sort, before any update is run.\<close>

lemma batchUpdate_raises:
  assumes "2 \<le> length updates"
  shows "batchUpdate s updates options = (Inl undefinedRiskLevel, s)"
proof -
  from assms obtain x y zs where "updates = x # y # zs"
    by (cases updates; cases "tl updates") auto
  then show ?thesis
    by (simp add: batchUpdate_def sortBy_raises [of compareRisk, OF compareRisk_raises]
          del: sortBy.simps)
qed

text \<open>
  C8, what the code does. \<open>determineUpdateTypeSync\<close> returns \<open>'medium'\<close>, which is no key
  of \<open>updateStrategies\<close>; the comparator of the sort reads \<open>riskLevel\<close> of \<open>undefined\<close>
  and raises a \<open>TypeError\<close>. A batch of two requests is neither sorted nor run: the batch
  update raises, and the system is as before.
\<close>

theorem batchUpdate_two_requests:
  "batchUpdate s [a, b] options = (Inl undefinedRiskLevel, s)"
  by (simp add: batchUpdate_def compareRisk_raises)

end
